theory Spec2Isabelle
  imports Complex_Main "HOL-Library.Sublist"
begin

section \<open>Python values used by the recipe engine\<close>

text \<open>
  Strings are character lists. \<open>str.lower()\<close> is modelled on ASCII text: the letters
  \<open>A\<close> to \<open>Z\<close> are mapped to \<open>a\<close> to \<open>z\<close>, every other character is kept.
  Python floats are modelled as exact reals, so rounding is not part of the model.
\<close>

definition lower_char :: "char \<Rightarrow> char" where
  "lower_char c =
     (case map_of (zip ''ABCDEFGHIJKLMNOPQRSTUVWXYZ'' ''abcdefghijklmnopqrstuvwxyz'') c of
        Some d \<Rightarrow> d
      | None \<Rightarrow> c)"

definition lower :: "string \<Rightarrow> string" where
  "lower s = map lower_char s"

text \<open>\<open>a in b\<close> on two strings: \<open>a\<close> occurs in \<open>b\<close> as a contiguous run.\<close>

definition str_in :: "string \<Rightarrow> string \<Rightarrow> bool" where
  "str_in a b \<longleftrightarrow> sublist a b"

text \<open>\<open>d.get(k, default)\<close>, applied to the result of looking \<open>k\<close> up.\<close>

definition get :: "'a option \<Rightarrow> 'a \<Rightarrow> 'a" where
  "get v dflt = (case v of Some x \<Rightarrow> x | None \<Rightarrow> dflt)"

text \<open>
  A recipe is a dictionary whose keys may be missing, so every field is optional.
  The type of the \<open>ingredients\<close> entry is a parameter: it is the list itself where a
  function only reads the recipe, and the address of the list object where the function
  writes to lists (\<open>adapt_recipe\<close>). Keys outside the thirteen known ones live in the
  record's extension.
\<close>

record 'l recipe =
  recipe_id :: "int option"
  name :: "string option"
  cuisine :: "string option"
  meal_type :: "string option"
  difficulty :: "string option"
  prep_time :: "int option"
  cook_time :: "int option"
  servings :: "int option"
  ingredients :: "'l option"
  steps :: "string list option"
  dietary_info :: "(string \<rightharpoonup> bool) option"
  tags :: "string list option"
  ai_generated :: "bool option"

section \<open>app.py and cli.py: the dietary filter\<close>

text \<open>
  The loop of \<open>matches_dietary_restrictions\<close> in app.py: an \<open>if\<close>/\<open>elif\<close> chain on the
  lower-cased label, \<open>return False\<close> at the first recognised label the recipe misses.
\<close>

fun matches_loop :: "string list \<Rightarrow> (string \<rightharpoonup> bool) \<Rightarrow> string list \<Rightarrow> bool" where
  "matches_loop recipe_tags recipe_dietary [] = True"
| "matches_loop recipe_tags recipe_dietary (restriction # rest) =
     (let restriction_lower = lower restriction in
      if restriction_lower = ''vegetarian'' then
        (if \<not> get (recipe_dietary ''vegetarian'') False \<and> ''vegetarian'' \<notin> set recipe_tags
         then False else matches_loop recipe_tags recipe_dietary rest)
      else if restriction_lower = ''vegan'' then
        (if \<not> get (recipe_dietary ''vegan'') False \<and> ''vegan'' \<notin> set recipe_tags
         then False else matches_loop recipe_tags recipe_dietary rest)
      else if restriction_lower = ''gluten-free'' then
        (if \<not> get (recipe_dietary ''gluten_free'') False \<and> ''gluten-free'' \<notin> set recipe_tags
         then False else matches_loop recipe_tags recipe_dietary rest)
      else if restriction_lower = ''dairy-free'' then
        (if \<not> get (recipe_dietary ''dairy_free'') False \<and> ''dairy-free'' \<notin> set recipe_tags
         then False else matches_loop recipe_tags recipe_dietary rest)
      else if restriction_lower = ''nut-free'' then
        (if \<not> get (recipe_dietary ''nut_free'') False \<and> ''nut-free'' \<notin> set recipe_tags
         then False else matches_loop recipe_tags recipe_dietary rest)
      else if restriction_lower = ''low-carb'' then
        (if \<not> get (recipe_dietary ''low_carb'') False \<and> ''low-carb'' \<notin> set recipe_tags
         then False else matches_loop recipe_tags recipe_dietary rest)
      else if restriction_lower = ''keto'' then
        (if \<not> get (recipe_dietary ''keto'') False \<and> ''keto'' \<notin> set recipe_tags
         then False else matches_loop recipe_tags recipe_dietary rest)
      else matches_loop recipe_tags recipe_dietary rest)"

definition matches_dietary_restrictions ::
  "('l, 'm) recipe_scheme \<Rightarrow> string list \<Rightarrow> bool" where
  "matches_dietary_restrictions recipe restrictions =
     (if restrictions = [] then True
      else let recipe_tags = get (tags recipe) [];
               recipe_dietary = get (dietary_info recipe) Map.empty
           in matches_loop recipe_tags recipe_dietary restrictions)"

text \<open>The same function in cli.py: seven independent \<open>if\<close> statements per label.\<close>

fun cli_matches_loop :: "string list \<Rightarrow> (string \<rightharpoonup> bool) \<Rightarrow> string list \<Rightarrow> bool" where
  "cli_matches_loop recipe_tags recipe_dietary [] = True"
| "cli_matches_loop recipe_tags recipe_dietary (restriction # rest) =
     (let r = lower restriction in
      if r = ''vegetarian'' \<and> (\<not> get (recipe_dietary ''vegetarian'') False \<and> ''vegetarian'' \<notin> set recipe_tags)
      then False
      else if r = ''vegan'' \<and> (\<not> get (recipe_dietary ''vegan'') False \<and> ''vegan'' \<notin> set recipe_tags)
      then False
      else if r = ''gluten-free'' \<and> (\<not> get (recipe_dietary ''gluten_free'') False \<and> ''gluten-free'' \<notin> set recipe_tags)
      then False
      else if r = ''dairy-free'' \<and> (\<not> get (recipe_dietary ''dairy_free'') False \<and> ''dairy-free'' \<notin> set recipe_tags)
      then False
      else if r = ''nut-free'' \<and> (\<not> get (recipe_dietary ''nut_free'') False \<and> ''nut-free'' \<notin> set recipe_tags)
      then False
      else if r = ''low-carb'' \<and> (\<not> get (recipe_dietary ''low_carb'') False \<and> ''low-carb'' \<notin> set recipe_tags)
      then False
      else if r = ''keto'' \<and> (\<not> get (recipe_dietary ''keto'') False \<and> ''keto'' \<notin> set recipe_tags)
      then False
      else cli_matches_loop recipe_tags recipe_dietary rest)"

definition cli_matches_dietary_restrictions ::
  "('l, 'm) recipe_scheme \<Rightarrow> string list \<Rightarrow> bool" where
  "cli_matches_dietary_restrictions recipe restrictions =
     (if restrictions = [] then True
      else let recipe_tags = get (tags recipe) [];
               recipe_dietary = get (dietary_info recipe) Map.empty
           in cli_matches_loop recipe_tags recipe_dietary restrictions)"

text \<open>
  The recognised labels, each with the key of its flag in \<open>dietary_info\<close>. The table is
  only used to state properties; the functions above spell the labels out as the source does.
\<close>

definition recognized :: "(string \<times> string) list" where
  "recognized =
     [(''vegetarian'', ''vegetarian''), (''vegan'', ''vegan''),
      (''gluten-free'', ''gluten_free''), (''dairy-free'', ''dairy_free''),
      (''nut-free'', ''nut_free''), (''low-carb'', ''low_carb''), (''keto'', ''keto'')]"

text \<open>A label is satisfied by its flag being true or by the label being among the tags.\<close>

definition satisfied :: "('l, 'm) recipe_scheme \<Rightarrow> string \<Rightarrow> string \<Rightarrow> bool" where
  "satisfied recipe label flag \<longleftrightarrow>
     get (get (dietary_info recipe) Map.empty flag) False \<or> label \<in> set (get (tags recipe) [])"

section \<open>app.py and cli.py: the ingredient score\<close>

definition ingredient_matched :: "string list \<Rightarrow> string \<Rightarrow> bool" where
  "ingredient_matched available_lower ing \<longleftrightarrow>
     list_ex (\<lambda>avail. str_in avail ing \<or> str_in ing avail) available_lower"

definition calculate_ingredient_match_score ::
  "(string list, 'm) recipe_scheme \<Rightarrow> string list \<Rightarrow> real" where
  "calculate_ingredient_match_score recipe available_ingredients =
     (if available_ingredients = [] then 1
      else
        let recipe_ingredients = map lower (get (ingredients recipe) []);
            available_lower = map lower available_ingredients;
            matching = sum_list (map (\<lambda>ing. 1::nat)
                         (filter (ingredient_matched available_lower) recipe_ingredients));
            total = length recipe_ingredients
        in if total = 0 then 0
           else let score = real matching / real total
                in if matching = total then 1 else score)"

section \<open>app.py and cli.py: filtering and ranking\<close>

record 'm candidate =
  recipe :: "(string list, 'm) recipe_scheme"
  score :: real
  ingredient_match :: real
  preference_match :: real

text \<open>\<open>if preferences.get(k)\<close>: the key is present and its string is not empty.\<close>

definition requested :: "(string \<rightharpoonup> string) \<Rightarrow> string \<Rightarrow> bool" where
  "requested preferences k = (case preferences k of Some v \<Rightarrow> v \<noteq> [] | None \<Rightarrow> False)"

text \<open>The body of the loop of \<open>filter_recipes\<close> for a recipe that passed the dietary filter.\<close>

definition score_recipe ::
  "(string \<rightharpoonup> string) \<Rightarrow> string list \<Rightarrow> (string list, 'm) recipe_scheme \<Rightarrow> 'm candidate" where
  "score_recipe preferences available_ingredients rcp =
     (let match_score = calculate_ingredient_match_score rcp available_ingredients;
          cuisine_match =
            (if requested preferences ''cuisine'' then
               let recipe_cuisine = lower (get (cuisine rcp) []);
                   preferred_cuisine = lower (get (preferences ''cuisine'') [])
               in if \<not> str_in preferred_cuisine recipe_cuisine then False else True
             else True);
          meal_type_match =
            (if requested preferences ''meal_type'' then
               let recipe_meal_type = lower (get (meal_type rcp) []);
                   preferred_meal_type = lower (get (preferences ''meal_type'') [])
               in if \<not> str_in preferred_meal_type recipe_meal_type then False else True
             else True);
          difficulty_match =
            (if requested preferences ''difficulty'' then
               let recipe_difficulty = lower (get (difficulty rcp) []);
                   preferred_difficulty = lower (get (preferences ''difficulty'') [])
               in if recipe_difficulty \<noteq> preferred_difficulty then False else True
             else True);
          preference_score = (1::real);
          preference_score = (if \<not> cuisine_match then preference_score * 0.7 else preference_score);
          preference_score = (if \<not> meal_type_match then preference_score * 0.7 else preference_score);
          preference_score = (if \<not> difficulty_match then preference_score * 0.8 else preference_score);
          final_score = match_score * 0.6 + preference_score * 0.4
      in \<lparr>recipe = rcp, score = final_score, ingredient_match = match_score,
          preference_match = preference_score\<rparr>)"

text \<open>
  \<open>filtered.sort(key=lambda x: x['score'], reverse=True)\<close>: Python's sort is stable, and
  with \<open>reverse=True\<close> it orders by decreasing key while elements with equal keys keep
  their original order. Insertion sort on the negated key has exactly this behaviour.
\<close>

definition sort_by_score_reverse :: "'m candidate list \<Rightarrow> 'm candidate list" where
  "sort_by_score_reverse filtered = sort_key (\<lambda>x. - score x) filtered"

definition filter_recipes ::
  "(string list, 'm) recipe_scheme list \<Rightarrow> (string \<rightharpoonup> string) \<Rightarrow> string list \<Rightarrow> string list
     \<Rightarrow> 'm candidate list" where
  "filter_recipes recipes preferences dietary_restrictions available_ingredients =
     (let filtered =
            foldl (\<lambda>filtered rcp.
                     if \<not> matches_dietary_restrictions rcp dietary_restrictions then filtered
                     else filtered @ [score_recipe preferences available_ingredients rcp])
                  [] recipes
      in sort_by_score_reverse filtered)"

section \<open>ai_service.py: the template generator\<close>

text \<open>
  \<open>FallbackAIGenerator.generate_recipe\<close>. The source ends with \<open>list(set(ingredients))\<close>,
  whose order is the iteration order of a Python set and is fixed by nothing in the program;
  it is the parameter \<open>set_order\<close>, about which theorems assume at most that it keeps
  the elements.
\<close>

definition cuisine_ingredients :: "(string \<times> string list) list" where
  "cuisine_ingredients =
     [(''Italian'', [''tomatoes'', ''basil'', ''parmesan cheese'']),
      (''Indian'', [''curry powder'', ''turmeric'', ''cumin'']),
      (''Japanese'', [''soy sauce'', ''ginger'', ''sesame oil'']),
      (''Mexican'', [''cilantro'', ''lime'', ''cumin'']),
      (''Mediterranean'', [''lemon'', ''oregano'', ''olives''])]"

definition generate_recipe ::
  "(string list \<Rightarrow> string list) \<Rightarrow> (string \<rightharpoonup> string) \<Rightarrow> string list \<Rightarrow> string list
     \<Rightarrow> string list recipe" where
  "generate_recipe set_order preferences dietary_restrictions available_ingredients =
     (let cuisine' = get (preferences ''cuisine'') ''International'';
          meal_type' = get (preferences ''meal_type'') ''Dinner'';
          difficulty' = get (preferences ''difficulty'') ''Easy'';
          is_vegan = (''vegan'' \<in> set dietary_restrictions);
          is_vegetarian = (''vegetarian'' \<in> set dietary_restrictions \<or> is_vegan);
          is_gluten_free = (''gluten-free'' \<in> set dietary_restrictions);
          is_dairy_free = (''dairy-free'' \<in> set dietary_restrictions \<or> is_vegan);
          base_name = cuisine' @ '' '' @ meal_type';
          base_name = (if is_vegetarian then ''Vegetarian '' @ base_name else base_name);
          base_name = (if is_gluten_free then ''Gluten-Free '' @ base_name else base_name);
          recipe_name = (if meal_type' = ''Lunch'' then base_name @ '' Bowl''
                         else base_name @ '' Dish'');
          ingredients' = (if available_ingredients \<noteq> [] then take 5 available_ingredients
                          else [''olive oil'', ''garlic'', ''salt'', ''pepper'']);
          ingredients' = (case map_of cuisine_ingredients cuisine' of
                            Some extra \<Rightarrow> ingredients' @ take 2 extra
                          | None \<Rightarrow> ingredients');
          steps' =
            [''Prepare all ingredients. Wash and chop vegetables if needed.'',
             ''Heat oil in a pan over medium heat. Add aromatics and cook until fragrant.'',
             ''Add main ingredients and cook for 5-7 minutes until tender.'',
             ''Season with salt, pepper, and spices to taste.'',
             ''Stir everything together and cook for another 2-3 minutes.'',
             ''Serve hot, garnished with fresh herbs if available.''];
          prep_time' = (if difficulty' = ''Easy'' then 10
                        else if difficulty' = ''Medium'' then 15 else 20);
          cook_time' = (if difficulty' = ''Easy'' then 15
                        else if difficulty' = ''Medium'' then 25 else 35)
      in \<lparr>recipe_id = Some 9999,
          name = Some recipe_name,
          cuisine = Some cuisine',
          meal_type = Some meal_type',
          difficulty = Some difficulty',
          prep_time = Some prep_time',
          cook_time = Some cook_time',
          servings = Some 4,
          ingredients = Some (set_order ingredients'),
          steps = Some steps',
          dietary_info = Some
            [''vegetarian'' \<mapsto> is_vegetarian,
             ''vegan'' \<mapsto> is_vegan,
             ''gluten_free'' \<mapsto> is_gluten_free,
             ''dairy_free'' \<mapsto> is_dairy_free,
             ''nut_free'' \<mapsto> True,
             ''low_carb'' \<mapsto> (''low-carb'' \<in> set dietary_restrictions),
             ''keto'' \<mapsto> (''keto'' \<in> set dietary_restrictions)],
          tags = Some (dietary_restrictions @ [''ai-generated'']),
          ai_generated = Some True\<rparr>)"

text \<open>\<open>FallbackAIGenerator.generate_cooking_tips\<close>.\<close>

definition generate_cooking_tips :: "('l, 'm) recipe_scheme \<Rightarrow> string list" where
  "generate_cooking_tips rcp =
     (let difficulty' = get (difficulty rcp) ''Easy'';
          meal_type' = get (meal_type rcp) ''Dinner'';
          tips =
            [''Always prep your ingredients before you start cooking (mise en place).'',
             ''For '' @ lower difficulty' @ '' recipes, read through all steps before beginning.'',
             ''Taste and adjust seasoning as you cook, not just at the end.'']
      in if meal_type' = ''Breakfast'' then
           tips @ [''Prep can be done the night before to save morning time.'']
         else if meal_type' = ''Dinner'' then
           tips @ [''Let proteins rest for a few minutes after cooking for better juiciness.'']
         else tips)"

section \<open>ai_service.py: adapting a recipe, over a store of objects\<close>

text \<open>
  \<open>adapt_recipe\<close> copies a dictionary and a list and then assigns to list elements and
  dictionary keys, so it is modelled over a store: recipe dictionaries and ingredient lists
  are objects with an address (their index in the store), a dictionary refers to its
  ingredient list by address, and allocation appends. The other entries of a recipe are
  never written by the program and stay values.
\<close>

type_synonym addr = nat

record 'm heap =
  dict_objs :: "(addr, 'm) recipe_scheme list"
  list_objs :: "string list list"

datatype py_error = KeyError string

definition new_dict :: "'m heap \<Rightarrow> (addr, 'm) recipe_scheme \<Rightarrow> addr \<times> 'm heap" where
  "new_dict h d = (length (dict_objs h), h\<lparr>dict_objs := dict_objs h @ [d]\<rparr>)"

definition new_list :: "'m heap \<Rightarrow> string list \<Rightarrow> addr \<times> 'm heap" where
  "new_list h xs = (length (list_objs h), h\<lparr>list_objs := list_objs h @ [xs]\<rparr>)"

text \<open>
  \<open>for old_ing, new_ing in substitutions.items()\<close>: each pass builds a new list by a
  comprehension and rebinds \<open>adapted_ingredients\<close> to it.
\<close>

fun substitute_loop :: "'m heap \<Rightarrow> addr \<Rightarrow> (string \<times> string) list \<Rightarrow> addr \<times> 'm heap" where
  "substitute_loop h adapted_ingredients [] = (adapted_ingredients, h)"
| "substitute_loop h adapted_ingredients ((old_ing, new_ing) # rest) =
     (let (adapted_ingredients', h') =
            new_list h (map (\<lambda>ing. if lower ing = lower old_ing then new_ing else ing)
                          (list_objs h ! adapted_ingredients))
      in substitute_loop h' adapted_ingredients' rest)"

text \<open>
  One round of \<open>for i, ing in enumerate(adapted_ingredients)\<close>: the element at \<open>i\<close> is read
  from the list object and, when it is not available, overwritten in place with
  \<open>available_ingredients[0]\<close> (only if there is one).
\<close>

definition replace_step :: "'m heap \<Rightarrow> addr \<Rightarrow> string list \<Rightarrow> nat \<Rightarrow> 'm heap" where
  "replace_step h adapted_ingredients available_ingredients i =
     (let ing = list_objs h ! adapted_ingredients ! i in
      if lower ing \<notin> set (map lower available_ingredients) then
        (case available_ingredients of
           [] \<Rightarrow> h
         | first # _ \<Rightarrow>
             h\<lparr>list_objs := (list_objs h)
                  [adapted_ingredients := (list_objs h ! adapted_ingredients)[i := first]]\<rparr>)
      else h)"

function replace_loop :: "'m heap \<Rightarrow> addr \<Rightarrow> string list \<Rightarrow> nat \<Rightarrow> 'm heap" where
  "replace_loop h adapted_ingredients available_ingredients i =
     (if i < length (list_objs h ! adapted_ingredients) then
        replace_loop (replace_step h adapted_ingredients available_ingredients i)
          adapted_ingredients available_ingredients (i + 1)
      else h)"
  by pat_completeness auto
termination
proof (relation "measure (\<lambda>(h, l, a, i). length (list_objs h ! l) - i)")
  show "wf (measure (\<lambda>(h :: 'm heap, l, a :: string list, i). length (list_objs h ! l) - i))"
    by simp
next
  fix h :: "'m heap" and l :: addr and a :: "string list" and i :: nat
  assume i: "i < length (list_objs h ! l)"
  have "length (list_objs (replace_step h l a i) ! l) = length (list_objs h ! l)"
    by (cases "l < length (list_objs h)")
       (simp_all add: replace_step_def Let_def list_update_beyond split: list.split)
  with i show "((replace_step h l a i, l, a, i + 1), (h, l, a, i))
      \<in> measure (\<lambda>(h, l, a, i). length (list_objs h ! l) - i)"
    by simp
qed

definition adapt_recipe ::
  "'m heap \<Rightarrow> addr \<Rightarrow> string list \<Rightarrow> (string \<times> string) list \<Rightarrow> py_error + (addr \<times> 'm heap)" where
  "adapt_recipe h rcp available_ingredients substitutions =
     (let (adapted, h) = new_dict h (dict_objs h ! rcp);
          (adapted_ingredients, h) =
             new_list h (case ingredients (dict_objs h ! adapted) of
                           Some l \<Rightarrow> list_objs h ! l
                         | None \<Rightarrow> []);
          (adapted_ingredients, h) = substitute_loop h adapted_ingredients substitutions;
          h = replace_loop h adapted_ingredients available_ingredients 0;
          h = h\<lparr>dict_objs := (dict_objs h)
                 [adapted := (dict_objs h ! adapted)\<lparr>ingredients := Some adapted_ingredients\<rparr>]\<rparr>
      in case name (dict_objs h ! adapted) of
           None \<Rightarrow> Inl (KeyError ''name'')
         | Some n \<Rightarrow>
             (let h = h\<lparr>dict_objs := (dict_objs h)
                        [adapted := (dict_objs h ! adapted)\<lparr>name := Some (n @ '' (Adapted)'')\<rparr>]\<rparr>;
                  h = h\<lparr>dict_objs := (dict_objs h)
                        [adapted := (dict_objs h ! adapted)\<lparr>ai_generated := Some True\<rparr>]\<rparr>
              in Inr (adapted, h)))"

section \<open>ai_service.py: extracting JSON from a response\<close>

datatype json =
  JNull | JBool bool | JNumber int | JString string
  | JArray "json list" | JObject "(string \<times> json) list"

text \<open>
  \<open>re.search(r'\{.*\}', text, re.DOTALL).group()\<close>: the leftmost match starts at the first
  opening brace, and the greedy \<open>.*\<close> runs to the last closing brace after it.
\<close>

definition search_object :: "string \<Rightarrow> string option" where
  "search_object text =
     (case dropWhile (\<lambda>c. c \<noteq> CHR ''{'') text of
        [] \<Rightarrow> None
      | opening # rest \<Rightarrow>
          if CHR ''}'' \<in> set rest
          then Some (opening # rev (dropWhile (\<lambda>c. c \<noteq> CHR ''}'') (rev rest)))
          else None)"

text \<open>
  The array pattern \<open>\[[^\[\]]*(?:\[[^\[\]]*\][^\[\]]*)*\]\<close> after its opening bracket:
  characters other than brackets are consumed; an opening bracket is allowed only outside
  a nested group and starts one; a closing bracket ends the nested group, or, outside
  one, ends the match. \<open>inner\<close> says whether a nested group is open. No other match exists
  from the same start, since the bracket characters are excluded from every run.
\<close>

fun match_array :: "bool \<Rightarrow> string \<Rightarrow> string option" where
  "match_array inner [] = None"
| "match_array inner (c # cs) =
     (if c = CHR '']'' then
        (if inner then map_option ((#) c) (match_array False cs) else Some [c])
      else if c = CHR ''['' then
        (if inner then None else map_option ((#) c) (match_array True cs))
      else map_option ((#) c) (match_array inner cs))"

text \<open>\<open>re.search\<close> tries the start positions from left to right.\<close>

fun search_array :: "string \<Rightarrow> string option" where
  "search_array [] = None"
| "search_array (c # cs) =
     (if c = CHR ''['' then
        (case match_array False cs of
           Some m \<Rightarrow> Some (c # m)
         | None \<Rightarrow> search_array cs)
      else search_array cs)"

text \<open>
  \<open>GeminiGenerator._parse_json_from_response\<close>. \<open>json.loads\<close> is the parameter \<open>loads\<close>,
  with \<open>None\<close> for \<open>JSONDecodeError\<close>.
\<close>

definition parse_json_from_response :: "(string \<Rightarrow> json option) \<Rightarrow> string \<Rightarrow> json option" where
  "parse_json_from_response loads response_text =
     (if response_text = [] then None
      else
        case (case search_object response_text of
                Some json_str \<Rightarrow> loads json_str
              | None \<Rightarrow> None) of
          Some v \<Rightarrow> Some v
        | None \<Rightarrow>
            (case search_array response_text of
               Some json_str \<Rightarrow> loads json_str
             | None \<Rightarrow> None))"

section \<open>Notions used to state the properties\<close>

text \<open>What one restriction label asks of the tags and flags of a recipe.\<close>

definition label_ok :: "string list \<Rightarrow> (string \<rightharpoonup> bool) \<Rightarrow> string \<Rightarrow> bool" where
  "label_ok T D x \<longleftrightarrow>
     (\<forall>(label, flag)\<in>set recognized. x = label \<longrightarrow> get (D flag) False \<or> label \<in> set T)"

text \<open>
  The number of recipe ingredients that, lower-cased, contain or are contained in some
  lower-cased owned ingredient.
\<close>

definition matched_count :: "string list \<Rightarrow> string list \<Rightarrow> nat" where
  "matched_count ings a =
     length (filter (\<lambda>ing. \<exists>avail\<in>set a. sublist (lower avail) (lower ing)
                                        \<or> sublist (lower ing) (lower avail)) ings)"

text \<open>
  A requested preference that the recipe misses: a non-empty requested cuisine or meal type
  that is not contained in the recipe's, a non-empty requested difficulty that is not equal
  to the recipe's, all compared in lower case; a missing recipe field counts as the empty
  string.
\<close>

definition cuisine_mismatch :: "(string \<rightharpoonup> string) \<Rightarrow> ('l, 'm) recipe_scheme \<Rightarrow> bool" where
  "cuisine_mismatch p r \<longleftrightarrow>
     (\<exists>q. p ''cuisine'' = Some q \<and> q \<noteq> [] \<and> \<not> sublist (lower q) (lower (get (cuisine r) [])))"

definition meal_type_mismatch :: "(string \<rightharpoonup> string) \<Rightarrow> ('l, 'm) recipe_scheme \<Rightarrow> bool" where
  "meal_type_mismatch p r \<longleftrightarrow>
     (\<exists>q. p ''meal_type'' = Some q \<and> q \<noteq> [] \<and> \<not> sublist (lower q) (lower (get (meal_type r) [])))"

definition difficulty_mismatch :: "(string \<rightharpoonup> string) \<Rightarrow> ('l, 'm) recipe_scheme \<Rightarrow> bool" where
  "difficulty_mismatch p r \<longleftrightarrow>
     (\<exists>q. p ''difficulty'' = Some q \<and> q \<noteq> [] \<and> lower q \<noteq> lower (get (difficulty r) []))"

text \<open>
  The shape the array pattern accepts between its outer brackets: a run without brackets,
  then any number of groups, each a bracketed run without brackets followed by a run
  without brackets.
\<close>

definition plain :: "char \<Rightarrow> bool" where
  "plain c \<longleftrightarrow> c \<noteq> CHR ''['' \<and> c \<noteq> CHR '']''"

definition array_body :: "string \<Rightarrow> (string \<times> string) list \<Rightarrow> string" where
  "array_body b0 groups =
     b0 @ concat (map (\<lambda>(n, t). CHR ''['' # n @ CHR '']'' # t) groups)"

section \<open>Sample data\<close>

definition pasta :: "string list recipe" where
  "pasta = \<lparr>recipe_id = Some 1, name = Some ''Pasta Primavera'', cuisine = Some ''Italian'',
     meal_type = Some ''Dinner'', difficulty = Some ''Easy'', prep_time = Some 10,
     cook_time = Some 20, servings = Some 2,
     ingredients = Some [''Pasta'', ''Cherry Tomatoes'', ''Basil''],
     steps = Some [''Boil the pasta.'', ''Toss with the vegetables.''],
     dietary_info = Some [''vegetarian'' \<mapsto> True], tags = Some [''quick''],
     ai_generated = None\<rparr>"

definition salad :: "string list recipe" where
  "salad = \<lparr>recipe_id = Some 2, name = Some ''Green Salad'', cuisine = Some ''Mediterranean'',
     meal_type = Some ''Lunch'', difficulty = Some ''Easy'', prep_time = Some 5,
     cook_time = Some 0, servings = Some 1,
     ingredients = Some [''Lettuce'', ''Olive Oil''],
     steps = Some [''Mix.''],
     dietary_info = Some [''vegan'' \<mapsto> True], tags = None,
     ai_generated = None\<rparr>"

definition stew :: "string list recipe" where
  "stew = \<lparr>recipe_id = Some 3, name = Some ''Beef Stew'', cuisine = None,
     meal_type = Some ''Dinner'', difficulty = Some ''Hard'', prep_time = Some 20,
     cook_time = Some 90, servings = Some 4,
     ingredients = None, steps = None,
     dietary_info = None, tags = Some [''gluten-free''],
     ai_generated = None\<rparr>"

definition corpus :: "string list recipe list" where
  "corpus = [stew, salad, pasta]"

text \<open>A decoder that knows two documents and rejects every other text.\<close>

definition sample_loads :: "string \<Rightarrow> json option" where
  "sample_loads s =
     (if s = ''{\"a\":1}'' then Some (JObject [(''a'', JNumber 1)])
      else if s = ''[\"x\",\"y\"]'' then Some (JArray [JString ''x'', JString ''y''])
      else None)"

section \<open>Evaluation on concrete inputs\<close>

lemmas eval_defs =
  matches_dietary_restrictions_def matches_loop.simps Let_def lower_def lower_char_def get_def
  str_in_def sublist_code

section \<open>The dietary filter\<close>

lemma label_ok_unrecognized: "x \<notin> fst ` set recognized \<Longrightarrow> label_ok T D x"
  unfolding label_ok_def by force

lemma fst_recognized:
  "fst ` set recognized =
     {''vegetarian'', ''vegan'', ''gluten-free'', ''dairy-free'', ''nut-free'', ''low-carb'', ''keto''}"
  unfolding recognized_def by (simp only: list.set image_insert image_empty fst_conv)

lemma matches_loop_Cons:
  "matches_loop T D (\<rho> # rest) \<longleftrightarrow> label_ok T D (lower \<rho>) \<and> matches_loop T D rest"
proof (cases "lower \<rho> \<in> fst ` set recognized")
  case False
  then have "matches_loop T D (\<rho> # rest) \<longleftrightarrow> matches_loop T D rest"
    unfolding fst_recognized by (simp add: Let_def)
  with False show ?thesis
    by (simp only: label_ok_unrecognized simp_thms)
next
  case True
  then show ?thesis
    unfolding fst_recognized
    by (elim insertE emptyE) (simp_all add: Let_def label_ok_def recognized_def)
qed

lemma cli_matches_loop_Cons:
  "cli_matches_loop T D (\<rho> # rest) \<longleftrightarrow> label_ok T D (lower \<rho>) \<and> cli_matches_loop T D rest"
proof (cases "lower \<rho> \<in> fst ` set recognized")
  case False
  then have "cli_matches_loop T D (\<rho> # rest) \<longleftrightarrow> cli_matches_loop T D rest"
    unfolding fst_recognized by (simp add: Let_def)
  with False show ?thesis
    by (simp only: label_ok_unrecognized simp_thms)
next
  case True
  then show ?thesis
    unfolding fst_recognized
    by (elim insertE emptyE) (simp_all add: Let_def label_ok_def recognized_def)
qed

declare matches_loop.simps(2) [simp del] cli_matches_loop.simps(2) [simp del]

lemma matches_loop_iff: "matches_loop T D R \<longleftrightarrow> (\<forall>\<rho>\<in>set R. label_ok T D (lower \<rho>))"
  by (induction R) (simp_all add: matches_loop_Cons)

lemma cli_matches_loop_iff: "cli_matches_loop T D R \<longleftrightarrow> (\<forall>\<rho>\<in>set R. label_ok T D (lower \<rho>))"
  by (induction R) (simp_all add: cli_matches_loop_Cons)

lemma label_ok_satisfied:
  "label_ok (get (tags r) []) (get (dietary_info r) Map.empty) x \<longleftrightarrow>
     (\<forall>(label, flag)\<in>set recognized. x = label \<longrightarrow> satisfied r label flag)"
  by (simp only: label_ok_def satisfied_def)

lemma matches_iff:
  "matches_dietary_restrictions r R \<longleftrightarrow>
     (\<forall>\<rho>\<in>set R. \<forall>(label, flag)\<in>set recognized. lower \<rho> = label \<longrightarrow> satisfied r label flag)"
  by (cases R) (simp_all only: matches_dietary_restrictions_def matches_loop_iff Let_def
      label_ok_satisfied list.set ball_empty if_True if_False list.distinct simp_thms)

lemma cli_matches_iff:
  "cli_matches_dietary_restrictions r R \<longleftrightarrow>
     (\<forall>\<rho>\<in>set R. \<forall>(label, flag)\<in>set recognized. lower \<rho> = label \<longrightarrow> satisfied r label flag)"
  by (cases R) (simp_all only: cli_matches_dietary_restrictions_def cli_matches_loop_iff Let_def
      label_ok_satisfied list.set ball_empty if_True if_False list.distinct simp_thms)

lemma matches_filter_recognized:
  "matches_dietary_restrictions r (filter (\<lambda>\<rho>. lower \<rho> \<in> fst ` set recognized) R)
     \<longleftrightarrow> matches_dietary_restrictions r R"
  unfolding matches_iff by force

lemma lower_vegetarian: "lower ''vegetarian'' = ''vegetarian''"
  by (simp add: lower_def lower_char_def)

lemma matches_vegetarian:
  "matches_dietary_restrictions r [''vegetarian''] \<longleftrightarrow>
     get (get (dietary_info r) Map.empty ''vegetarian'') False
     \<or> ''vegetarian'' \<in> set (get (tags r) [])"
  unfolding matches_iff by (simp add: lower_vegetarian recognized_def satisfied_def)

text \<open>
  C2. A recipe passes the dietary filter exactly when every label of the restriction list
  that, lower-cased, is one of the seven recognised labels is satisfied by its flag in
  \<open>dietary_info\<close> being true or by the label being among the tags. This holds for the
  function of app.py and for the one of cli.py. The empty list passes, labels outside the
  recognised set can be dropped without changing the result, and the restriction
  \<open>vegetarian\<close> depends on the \<open>vegetarian\<close> flag and tag only: a true \<open>vegan\<close> flag does
  not satisfy it.
\<close>

theorem matches_dietary_restrictions_characterisation:
  "(matches_dietary_restrictions r R \<longleftrightarrow>
      (\<forall>\<rho>\<in>set R. \<forall>(label, flag)\<in>set recognized.
         lower \<rho> = label \<longrightarrow> satisfied r label flag))
   \<and> (cli_matches_dietary_restrictions r R \<longleftrightarrow> matches_dietary_restrictions r R)
   \<and> matches_dietary_restrictions r []
   \<and> (matches_dietary_restrictions r (filter (\<lambda>\<rho>. lower \<rho> \<in> fst ` set recognized) R)
        \<longleftrightarrow> matches_dietary_restrictions r R)
   \<and> (matches_dietary_restrictions r [''vegetarian''] \<longleftrightarrow>
        get (get (dietary_info r) Map.empty ''vegetarian'') False
        \<or> ''vegetarian'' \<in> set (get (tags r) []))
   \<and> (get (get (dietary_info r) Map.empty ''vegan'') False
        \<and> \<not> get (get (dietary_info r) Map.empty ''vegetarian'') False
        \<and> ''vegetarian'' \<notin> set (get (tags r) [])
        \<longrightarrow> \<not> matches_dietary_restrictions r [''vegetarian''])"
proof (intro conjI)
  show "matches_dietary_restrictions r R \<longleftrightarrow>
      (\<forall>\<rho>\<in>set R. \<forall>(label, flag)\<in>set recognized.
         lower \<rho> = label \<longrightarrow> satisfied r label flag)"
    by (rule matches_iff)
  show "cli_matches_dietary_restrictions r R \<longleftrightarrow> matches_dietary_restrictions r R"
    by (simp only: matches_iff cli_matches_iff)
  show "matches_dietary_restrictions r []"
    by (simp add: matches_dietary_restrictions_def)
  show "matches_dietary_restrictions r (filter (\<lambda>\<rho>. lower \<rho> \<in> fst ` set recognized) R)
        \<longleftrightarrow> matches_dietary_restrictions r R"
    by (rule matches_filter_recognized)
  show "matches_dietary_restrictions r [''vegetarian''] \<longleftrightarrow>
        get (get (dietary_info r) Map.empty ''vegetarian'') False
        \<or> ''vegetarian'' \<in> set (get (tags r) [])"
    by (rule matches_vegetarian)
  show "get (get (dietary_info r) Map.empty ''vegan'') False
        \<and> \<not> get (get (dietary_info r) Map.empty ''vegetarian'') False
        \<and> ''vegetarian'' \<notin> set (get (tags r) [])
        \<longrightarrow> \<not> matches_dietary_restrictions r [''vegetarian'']"
    by (simp only: matches_vegetarian) blast
qed

theorem matches_dietary_restrictions_characterisation_witness:
  "matches_dietary_restrictions pasta [''Vegetarian'', ''paleo'']
   \<and> get (get (dietary_info salad) Map.empty ''vegan'') False
   \<and> \<not> matches_dietary_restrictions salad [''vegetarian'']"
proof -
  have "\<forall>\<rho>\<in>set [''Vegetarian'', ''paleo'']. \<forall>(label, flag)\<in>set recognized.
          lower \<rho> = label \<longrightarrow> satisfied pasta label flag"
    by (simp add: recognized_def satisfied_def pasta_def lower_def lower_char_def get_def)
  then have "matches_dietary_restrictions pasta [''Vegetarian'', ''paleo'']"
    using matches_dietary_restrictions_characterisation [of pasta "[''Vegetarian'', ''paleo'']"]
    by blast
  moreover have v: "get (get (dietary_info salad) Map.empty ''vegan'') False
      \<and> \<not> get (get (dietary_info salad) Map.empty ''vegetarian'') False
      \<and> ''vegetarian'' \<notin> set (get (tags salad) [])"
    by (simp add: salad_def get_def)
  moreover from v have "\<not> matches_dietary_restrictions salad [''vegetarian'']"
    using matches_dietary_restrictions_characterisation [of salad "[]"] by blast
  ultimately show ?thesis by blast
qed

section \<open>The ingredient score\<close>

lemma sum_list_ones: "sum_list (map (\<lambda>x. Suc 0) xs) = length xs"
  by (induction xs) simp_all

lemma ingredient_matched_iff:
  "ingredient_matched (map lower a) ing \<longleftrightarrow>
     (\<exists>avail\<in>set a. sublist (lower avail) ing \<or> sublist ing (lower avail))"
  by (simp add: ingredient_matched_def list_ex_iff str_in_def)

lemma matching_eq:
  "sum_list (map (\<lambda>ing. 1::nat) (filter (ingredient_matched (map lower a)) (map lower ings)))
     = matched_count ings a"
  by (simp add: sum_list_ones matched_count_def filter_map o_def ingredient_matched_iff)

lemma matched_count_le: "matched_count ings a \<le> length ings"
  by (simp add: matched_count_def)

lemma score_unfold:
  "calculate_ingredient_match_score r a =
     (if a = [] then 1
      else if get (ingredients r) [] = [] then 0
      else if matched_count (get (ingredients r) []) a = length (get (ingredients r) []) then 1
      else real (matched_count (get (ingredients r) []) a) / real (length (get (ingredients r) [])))"
  unfolding calculate_ingredient_match_score_def Let_def matching_eq by simp

lemma score_range:
  "0 \<le> calculate_ingredient_match_score r a \<and> calculate_ingredient_match_score r a \<le> 1"
  using matched_count_le [of "get (ingredients r) []" a]
  by (simp add: score_unfold divide_le_eq)

text \<open>
  C3. With no owned ingredients the score is 1. With owned ingredients, a recipe without
  ingredients (or without the \<open>ingredients\<close> key) scores 0; otherwise the score is the
  number of matched ingredients divided by the number of ingredients, where an ingredient
  is matched when, lower-cased, it contains or is contained in some lower-cased owned
  ingredient; and when all ingredients are matched the score is 1, which the function
  returns from a branch of its own.
\<close>

theorem calculate_ingredient_match_score_cases:
  "calculate_ingredient_match_score r [] = 1
   \<and> (a \<noteq> [] \<and> get (ingredients r) [] = [] \<longrightarrow> calculate_ingredient_match_score r a = 0)
   \<and> (a \<noteq> [] \<and> get (ingredients r) [] \<noteq> [] \<longrightarrow>
        calculate_ingredient_match_score r a =
          real (matched_count (get (ingredients r) []) a) / real (length (get (ingredients r) [])))
   \<and> (a \<noteq> [] \<and> get (ingredients r) [] \<noteq> []
        \<and> matched_count (get (ingredients r) []) a = length (get (ingredients r) []) \<longrightarrow>
        calculate_ingredient_match_score r a = 1)"
  by (simp add: score_unfold)

theorem calculate_ingredient_match_score_cases_witness:
  "calculate_ingredient_match_score pasta [''tomatoes'', ''BASIL leaves''] = 2 / 3
   \<and> calculate_ingredient_match_score stew [''beef''] = 0
   \<and> calculate_ingredient_match_score salad [''Lettuce'', ''olive''] = 1"
proof -
  have p: "get (ingredients pasta) [] = [''Pasta'', ''Cherry Tomatoes'', ''Basil'']"
    by (simp add: pasta_def get_def)
  have "matched_count [''Pasta'', ''Cherry Tomatoes'', ''Basil''] [''tomatoes'', ''BASIL leaves''] = 2"
    by (simp add: matched_count_def lower_def lower_char_def sublist_code)
  with p have 1: "calculate_ingredient_match_score pasta [''tomatoes'', ''BASIL leaves''] = 2 / 3"
    using calculate_ingredient_match_score_cases [of pasta "[''tomatoes'', ''BASIL leaves'']"]
    by simp
  have "get (ingredients stew) [] = []"
    by (simp add: stew_def get_def)
  then have 2: "calculate_ingredient_match_score stew [''beef''] = 0"
    using calculate_ingredient_match_score_cases [of stew "[''beef'']"] by simp
  have s: "get (ingredients salad) [] = [''Lettuce'', ''Olive Oil'']"
    by (simp add: salad_def get_def)
  have "matched_count [''Lettuce'', ''Olive Oil''] [''Lettuce'', ''olive''] = 2"
    by (simp add: matched_count_def lower_def lower_char_def sublist_code)
  with s have 3: "calculate_ingredient_match_score salad [''Lettuce'', ''olive''] = 1"
    using calculate_ingredient_match_score_cases [of salad "[''Lettuce'', ''olive'']"]
    by simp
  from 1 2 3 show ?thesis by simp
qed

section \<open>Filtering and ranking\<close>

lemma filter_loop_eq:
  "foldl (\<lambda>filtered rcp. if \<not> P rcp then filtered else filtered @ [f rcp]) acc rs
     = acc @ map f (filter P rs)"
  by (induction rs arbitrary: acc) simp_all

lemma filter_recipes_eq:
  "filter_recipes rs p d a =
     sort_key (\<lambda>x. - score x)
       (map (score_recipe p a) (filter (\<lambda>r. matches_dietary_restrictions r d) rs))"
  by (simp add: filter_recipes_def sort_by_score_reverse_def filter_loop_eq)

lemma score_recipe_recipe: "recipe (score_recipe p a r) = r"
  by (simp add: score_recipe_def Let_def)

lemma score_recipe_ingredient_match:
  "ingredient_match (score_recipe p a r) = calculate_ingredient_match_score r a"
  by (simp add: score_recipe_def Let_def)

lemma score_recipe_preference_match:
  "preference_match (score_recipe p a r) =
     (if cuisine_mismatch p r then 0.7 else 1) * (if meal_type_mismatch p r then 0.7 else 1)
       * (if difficulty_mismatch p r then 0.8 else 1)"
proof -
  have c: "(if requested p ''cuisine'' then
              (if \<not> str_in (lower (get (p ''cuisine'') [])) (lower (get (cuisine r) []))
               then False else True)
            else True) = (\<not> cuisine_mismatch p r)"
    by (cases "p ''cuisine''") (simp_all add: requested_def cuisine_mismatch_def str_in_def get_def)
  have m: "(if requested p ''meal_type'' then
              (if \<not> str_in (lower (get (p ''meal_type'') [])) (lower (get (meal_type r) []))
               then False else True)
            else True) = (\<not> meal_type_mismatch p r)"
    by (cases "p ''meal_type''")
       (simp_all add: requested_def meal_type_mismatch_def str_in_def get_def)
  have d: "(if requested p ''difficulty'' then
              (if lower (get (difficulty r) []) \<noteq> lower (get (p ''difficulty'') [])
               then False else True)
            else True) = (\<not> difficulty_mismatch p r)"
    by (cases "p ''difficulty''") (auto simp add: requested_def difficulty_mismatch_def get_def)
  show ?thesis
    unfolding score_recipe_def Let_def c m d by simp
qed

lemma score_recipe_score:
  "score (score_recipe p a r) =
     ingredient_match (score_recipe p a r) * 0.6 + preference_match (score_recipe p a r) * 0.4"
  by (simp add: score_recipe_def Let_def)

lemma preference_match_range:
  "0 \<le> preference_match (score_recipe p a r) \<and> preference_match (score_recipe p a r) \<le> 1"
  by (simp add: score_recipe_preference_match)

lemma score_recipe_score_range:
  "0 \<le> score (score_recipe p a r) \<and> score (score_recipe p a r) \<le> 1"
proof -
  let ?i = "ingredient_match (score_recipe p a r)" and ?q = "preference_match (score_recipe p a r)"
  have "0 \<le> ?i" "?i \<le> 1"
    using score_range [of r a] by (simp_all add: score_recipe_ingredient_match)
  moreover have "0 \<le> ?q" "?q \<le> 1"
    using preference_match_range [of p a r] by simp_all
  ultimately show ?thesis
    unfolding score_recipe_score by simp
qed

lemma set_filter_recipes:
  "set (filter_recipes rs p d a) =
     score_recipe p a ` {r \<in> set rs. matches_dietary_restrictions r d}"
  by (simp add: filter_recipes_eq)

text \<open>
  C1. Every recipe of the corpus that passes the dietary filter has a candidate in the
  ranked list, and every candidate of the list comes from such a recipe. Its
  \<open>ingredient_match\<close> is the ingredient score; its \<open>preference_match\<close> is 1 multiplied by
  0.7 for a missed cuisine, by 0.7 for a missed meal type and by 0.8 for a missed
  difficulty (containment for cuisine and meal type, equality for difficulty, in lower
  case, and only for a non-empty requested value); its score is
  \<open>ingredient_match * 0.6 + preference_match * 0.4\<close> and lies between 0 and 1.
\<close>

theorem filter_recipes_composite_score:
  "(\<forall>r\<in>set rs. matches_dietary_restrictions r d \<longrightarrow>
       (\<exists>c\<in>set (filter_recipes rs p d a). recipe c = r))
   \<and> (\<forall>c\<in>set (filter_recipes rs p d a).
         recipe c \<in> set rs \<and> matches_dietary_restrictions (recipe c) d
       \<and> ingredient_match c = calculate_ingredient_match_score (recipe c) a
       \<and> preference_match c =
           (if cuisine_mismatch p (recipe c) then 0.7 else 1)
           * (if meal_type_mismatch p (recipe c) then 0.7 else 1)
           * (if difficulty_mismatch p (recipe c) then 0.8 else 1)
       \<and> score c = ingredient_match c * 0.6 + preference_match c * 0.4
       \<and> 0 \<le> score c \<and> score c \<le> 1)"
proof (intro conjI ballI impI)
  fix r assume "r \<in> set rs" "matches_dietary_restrictions r d"
  then have "score_recipe p a r \<in> set (filter_recipes rs p d a)"
    by (simp add: set_filter_recipes)
  then show "\<exists>c\<in>set (filter_recipes rs p d a). recipe c = r"
    using score_recipe_recipe by blast
next
  fix c assume "c \<in> set (filter_recipes rs p d a)"
  then obtain r where r: "r \<in> set rs" "matches_dietary_restrictions r d" "c = score_recipe p a r"
    by (auto simp: set_filter_recipes)
  show "recipe c \<in> set rs" "matches_dietary_restrictions (recipe c) d"
    using r by (simp_all add: score_recipe_recipe)
  show "ingredient_match c = calculate_ingredient_match_score (recipe c) a"
    using r by (simp add: score_recipe_recipe score_recipe_ingredient_match)
  show "preference_match c =
           (if cuisine_mismatch p (recipe c) then 0.7 else 1)
           * (if meal_type_mismatch p (recipe c) then 0.7 else 1)
           * (if difficulty_mismatch p (recipe c) then 0.8 else 1)"
    unfolding r(3) score_recipe_recipe by (rule score_recipe_preference_match)
  show "score c = ingredient_match c * 0.6 + preference_match c * 0.4"
    unfolding r(3) by (rule score_recipe_score)
  show "0 \<le> score c" "score c \<le> 1"
    unfolding r(3) using score_recipe_score_range [of p a r] by simp_all
qed

theorem filter_recipes_composite_score_witness:
  "\<exists>c\<in>set (filter_recipes corpus [''cuisine'' \<mapsto> ''ital'', ''difficulty'' \<mapsto> ''HARD'']
                [''Gluten-Free''] [''beef'']).
      recipe c = stew \<and> ingredient_match c = 0 \<and> preference_match c = 0.7 \<and> score c = 0.28"
proof -
  let ?p = "[''cuisine'' \<mapsto> ''ital'', ''difficulty'' \<mapsto> ''HARD'']"
  have in_corpus: "stew \<in> set corpus"
    by (simp add: corpus_def)
  have passes: "matches_dietary_restrictions stew [''Gluten-Free'']"
    by (simp add: stew_def eval_defs)
  have i: "calculate_ingredient_match_score stew [''beef''] = 0"
    by (simp add: calculate_ingredient_match_score_def stew_def get_def)
  have c: "cuisine_mismatch ?p stew"
    by (simp add: cuisine_mismatch_def stew_def get_def lower_def lower_char_def sublist_code)
  have m: "\<not> meal_type_mismatch ?p stew"
    by (simp add: meal_type_mismatch_def)
  have d: "\<not> difficulty_mismatch ?p stew"
    by (simp add: difficulty_mismatch_def stew_def get_def lower_def lower_char_def)
  from in_corpus passes obtain c
    where c_in: "c \<in> set (filter_recipes corpus ?p [''Gluten-Free''] [''beef''])"
      and c_stew: "recipe c = stew"
    using filter_recipes_composite_score [of corpus "[''Gluten-Free'']" ?p "[''beef'']"]
    by blast
  from c_in have
    "ingredient_match c = calculate_ingredient_match_score (recipe c) [''beef'']"
    "preference_match c =
       (if cuisine_mismatch ?p (recipe c) then 0.7 else 1)
       * (if meal_type_mismatch ?p (recipe c) then 0.7 else 1)
       * (if difficulty_mismatch ?p (recipe c) then 0.8 else 1)"
    "score c = ingredient_match c * 0.6 + preference_match c * 0.4"
    using filter_recipes_composite_score [of corpus "[''Gluten-Free'']" ?p "[''beef'']"]
    by blast+
  with c_stew i c m d have
    "ingredient_match c = 0" "preference_match c = 0.7" "score c = 0.28"
    by simp_all
  with c_in c_stew show ?thesis by blast
qed

lemma sorted_desc:
  "sorted_wrt (\<lambda>x y. score y \<le> score x) (sort_key (\<lambda>x. - score x) (xs :: 'm candidate list))"
proof -
  have "sorted (map (\<lambda>x. - score x) (sort_key (\<lambda>x. - score x) xs))"
    by (rule sorted_sort_key)
  then show ?thesis
    by (simp add: sorted_map)
qed

text \<open>
  C4. The ranked list is sorted by non-increasing score, and for every score value the
  candidates with that score appear in the list in the order in which their recipes
  appear in the corpus.
\<close>

theorem filter_recipes_sorted_stable:
  "sorted_wrt (\<lambda>x y. score y \<le> score x) (filter_recipes rs p d a)
   \<and> (\<forall>s. filter (\<lambda>c. score c = s) (filter_recipes rs p d a) =
          map (score_recipe p a)
            (filter (\<lambda>r. matches_dietary_restrictions r d \<and> score (score_recipe p a r) = s) rs))"
proof (intro conjI allI)
  show "sorted_wrt (\<lambda>x y. score y \<le> score x) (filter_recipes rs p d a)"
    unfolding filter_recipes_eq by (rule sorted_desc)
next
  fix s
  have "filter (\<lambda>c. score c = s) (filter_recipes rs p d a)
      = filter (\<lambda>c. - score c = - s) (filter_recipes rs p d a)"
    by simp
  also have "\<dots> = filter (\<lambda>c. - score c = - s)
       (map (score_recipe p a) (filter (\<lambda>r. matches_dietary_restrictions r d) rs))"
    unfolding filter_recipes_eq by (rule sort_key_stable)
  also have "\<dots> = map (score_recipe p a)
            (filter (\<lambda>r. matches_dietary_restrictions r d \<and> score (score_recipe p a r) = s) rs)"
    by (simp add: filter_map o_def conj_commute)
  finally show "filter (\<lambda>c. score c = s) (filter_recipes rs p d a) =
          map (score_recipe p a)
            (filter (\<lambda>r. matches_dietary_restrictions r d \<and> score (score_recipe p a r) = s) rs)" .
qed

theorem filter_recipes_sorted_stable_witness:
  "map (\<lambda>c. name (recipe c)) (filter_recipes corpus Map.empty [] []) =
     [Some ''Beef Stew'', Some ''Green Salad'', Some ''Pasta Primavera'']
   \<and> map (\<lambda>c. name (recipe c))
       (filter_recipes corpus [''difficulty'' \<mapsto> ''easy''] [] []) =
     [Some ''Green Salad'', Some ''Pasta Primavera'', Some ''Beef Stew'']"
proof -
  let ?q = "[''difficulty'' \<mapsto> ''easy'']"
  have all_one: "\<forall>r\<in>set corpus. score (score_recipe Map.empty [] r) = 1"
    by (simp add: corpus_def score_recipe_def Let_def requested_def
        calculate_ingredient_match_score_def)
  have "\<forall>c\<in>set (filter_recipes corpus Map.empty [] []). score c = 1"
    using all_one by (auto simp: set_filter_recipes)
  then have "filter_recipes corpus Map.empty [] []
      = filter (\<lambda>c. score c = 1) (filter_recipes corpus Map.empty [] [])"
    by simp
  also have "\<dots> = map (score_recipe Map.empty [])
      (filter (\<lambda>r. matches_dietary_restrictions r []
                 \<and> score (score_recipe Map.empty [] r) = 1) corpus)"
    using filter_recipes_sorted_stable [of corpus Map.empty "[]" "[]"] by blast
  also have "\<dots> = map (score_recipe Map.empty []) corpus"
    using all_one by (simp add: matches_dietary_restrictions_def)
  finally have 1: "map (\<lambda>c. name (recipe c)) (filter_recipes corpus Map.empty [] []) =
     [Some ''Beef Stew'', Some ''Green Salad'', Some ''Pasta Primavera'']"
    by (simp add: score_recipe_recipe o_def corpus_def stew_def salad_def pasta_def)
  have s: "score (score_recipe ?q [] stew) = 0.92"
      "score (score_recipe ?q [] salad) = 1" "score (score_recipe ?q [] pasta) = 1"
    by (simp_all add: score_recipe_def Let_def requested_def calculate_ingredient_match_score_def
        stew_def salad_def pasta_def get_def lower_def lower_char_def)
  have "filter_recipes corpus ?q [] [] =
      sort_key (\<lambda>x. - score x) (map (score_recipe ?q []) corpus)"
    by (simp add: filter_recipes_eq matches_dietary_restrictions_def)
  then have 2: "map (\<lambda>c. name (recipe c)) (filter_recipes corpus ?q [] []) =
     [Some ''Green Salad'', Some ''Pasta Primavera'', Some ''Beef Stew'']"
    using s by (simp add: corpus_def score_recipe_recipe)
       (simp add: stew_def salad_def pasta_def)
  from 1 2 show ?thesis by simp
qed

section \<open>The template generator\<close>

lemma generate_recipe_tags:
  "tags (generate_recipe so p R a) = Some (R @ [''ai-generated''])"
  by (simp add: generate_recipe_def Let_def)

lemma generate_recipe_dietary_info:
  "dietary_info (generate_recipe so p R a) = Some
     [''vegetarian'' \<mapsto> (''vegetarian'' \<in> set R \<or> ''vegan'' \<in> set R),
      ''vegan'' \<mapsto> (''vegan'' \<in> set R),
      ''gluten_free'' \<mapsto> (''gluten-free'' \<in> set R),
      ''dairy_free'' \<mapsto> (''dairy-free'' \<in> set R \<or> ''vegan'' \<in> set R),
      ''nut_free'' \<mapsto> True,
      ''low_carb'' \<mapsto> (''low-carb'' \<in> set R),
      ''keto'' \<mapsto> (''keto'' \<in> set R)]"
  by (simp add: generate_recipe_def Let_def)

lemma generate_recipe_times:
  "prep_time (generate_recipe so p R a) =
     Some (if get (p ''difficulty'') ''Easy'' = ''Easy'' then 10
           else if get (p ''difficulty'') ''Easy'' = ''Medium'' then 15 else 20)"
  "cook_time (generate_recipe so p R a) =
     Some (if get (p ''difficulty'') ''Easy'' = ''Easy'' then 15
           else if get (p ''difficulty'') ''Easy'' = ''Medium'' then 25 else 35)"
  by (simp_all add: generate_recipe_def Let_def)

lemma generate_recipe_name:
  "name (generate_recipe so p R a) =
     Some ((if ''gluten-free'' \<in> set R then ''Gluten-Free '' else [])
           @ (if ''vegetarian'' \<in> set R \<or> ''vegan'' \<in> set R then ''Vegetarian '' else [])
           @ get (p ''cuisine'') ''International'' @ '' '' @ get (p ''meal_type'') ''Dinner''
           @ (if get (p ''meal_type'') ''Dinner'' = ''Lunch'' then '' Bowl'' else '' Dish''))"
  by (simp add: generate_recipe_def Let_def)

lemma generate_recipe_ingredients:
  "ingredients (generate_recipe so p R a) =
     Some (so ((if a \<noteq> [] then take 5 a else [''olive oil'', ''garlic'', ''salt'', ''pepper''])
               @ (case map_of cuisine_ingredients (get (p ''cuisine'') ''International'') of
                    Some extra \<Rightarrow> take 2 extra | None \<Rightarrow> [])))"
  by (simp add: generate_recipe_def Let_def split: option.split)

text \<open>
  C8. For the preferences Italian, Lunch, Easy, no restrictions and no owned ingredients,
  the generated recipe is named \<open>Italian Lunch Bowl\<close>, which contains \<open>Italian\<close> and
  \<open>Lunch\<close>, has \<open>prep_time\<close> 10 and \<open>cook_time\<close> 15, and, whatever order the set of
  ingredients is listed in, its ingredients include \<open>tomatoes\<close>. For all inputs the times
  are 10 and 15 for Easy, 15 and 25 for Medium, 20 and 35 for Hard.
\<close>

theorem generate_recipe_italian_lunch_easy:
  "((\<forall>xs. set (set_order xs) = set xs) \<longrightarrow>
      (\<exists>n ings.
         name (generate_recipe set_order
           [''cuisine'' \<mapsto> ''Italian'', ''meal_type'' \<mapsto> ''Lunch'', ''difficulty'' \<mapsto> ''Easy'']
           [] []) = Some n
       \<and> sublist ''Italian'' n \<and> sublist ''Lunch'' n
       \<and> prep_time (generate_recipe set_order
           [''cuisine'' \<mapsto> ''Italian'', ''meal_type'' \<mapsto> ''Lunch'', ''difficulty'' \<mapsto> ''Easy'']
           [] []) = Some 10
       \<and> cook_time (generate_recipe set_order
           [''cuisine'' \<mapsto> ''Italian'', ''meal_type'' \<mapsto> ''Lunch'', ''difficulty'' \<mapsto> ''Easy'']
           [] []) = Some 15
       \<and> ingredients (generate_recipe set_order
           [''cuisine'' \<mapsto> ''Italian'', ''meal_type'' \<mapsto> ''Lunch'', ''difficulty'' \<mapsto> ''Easy'']
           [] []) = Some ings
       \<and> (''tomatoes'' \<in> set ings \<or> ''basil'' \<in> set ings \<or> ''parmesan cheese'' \<in> set ings)))
   \<and> (p ''difficulty'' = Some ''Easy'' \<longrightarrow>
        prep_time (generate_recipe set_order p R a) = Some 10
        \<and> cook_time (generate_recipe set_order p R a) = Some 15)
   \<and> (p ''difficulty'' = Some ''Medium'' \<longrightarrow>
        prep_time (generate_recipe set_order p R a) = Some 15
        \<and> cook_time (generate_recipe set_order p R a) = Some 25)
   \<and> (p ''difficulty'' = Some ''Hard'' \<longrightarrow>
        prep_time (generate_recipe set_order p R a) = Some 20
        \<and> cook_time (generate_recipe set_order p R a) = Some 35)"
proof (intro conjI impI)
  let ?p = "[''cuisine'' \<mapsto> ''Italian'', ''meal_type'' \<mapsto> ''Lunch'', ''difficulty'' \<mapsto> ''Easy'']"
  assume so: "\<forall>xs. set (set_order xs) = set xs"
  have n: "name (generate_recipe set_order ?p [] []) = Some ''Italian Lunch Bowl''"
    by (simp add: generate_recipe_name get_def)
  have s: "sublist ''Italian'' ''Italian Lunch Bowl''" "sublist ''Lunch'' ''Italian Lunch Bowl''"
    by (simp_all add: sublist_code)
  have t: "prep_time (generate_recipe set_order ?p [] []) = Some 10"
      "cook_time (generate_recipe set_order ?p [] []) = Some 15"
    by (simp_all add: generate_recipe_times get_def)
  have i: "ingredients (generate_recipe set_order ?p [] []) =
      Some (set_order [''olive oil'', ''garlic'', ''salt'', ''pepper'', ''tomatoes'', ''basil''])"
    by (simp add: generate_recipe_ingredients get_def cuisine_ingredients_def)
  have "''tomatoes'' \<in>
      set (set_order [''olive oil'', ''garlic'', ''salt'', ''pepper'', ''tomatoes'', ''basil''])"
    using so by simp
  with n s t i show "\<exists>n ings.
         name (generate_recipe set_order ?p [] []) = Some n
       \<and> sublist ''Italian'' n \<and> sublist ''Lunch'' n
       \<and> prep_time (generate_recipe set_order ?p [] []) = Some 10
       \<and> cook_time (generate_recipe set_order ?p [] []) = Some 15
       \<and> ingredients (generate_recipe set_order ?p [] []) = Some ings
       \<and> (''tomatoes'' \<in> set ings \<or> ''basil'' \<in> set ings \<or> ''parmesan cheese'' \<in> set ings)"
    by blast
next
  assume "p ''difficulty'' = Some ''Easy''"
  then show "prep_time (generate_recipe set_order p R a) = Some 10"
      "cook_time (generate_recipe set_order p R a) = Some 15"
    by (simp_all add: generate_recipe_times get_def)
next
  assume "p ''difficulty'' = Some ''Medium''"
  then show "prep_time (generate_recipe set_order p R a) = Some 15"
      "cook_time (generate_recipe set_order p R a) = Some 25"
    by (simp_all add: generate_recipe_times get_def)
next
  assume "p ''difficulty'' = Some ''Hard''"
  then show "prep_time (generate_recipe set_order p R a) = Some 20"
      "cook_time (generate_recipe set_order p R a) = Some 35"
    by (simp_all add: generate_recipe_times get_def)
qed

theorem generate_recipe_italian_lunch_easy_witness:
  "(\<forall>xs :: string list. set (remdups xs) = set xs)
   \<and> (\<exists>n ings.
         name (generate_recipe remdups
           [''cuisine'' \<mapsto> ''Italian'', ''meal_type'' \<mapsto> ''Lunch'', ''difficulty'' \<mapsto> ''Easy'']
           [] []) = Some n
       \<and> sublist ''Italian'' n \<and> sublist ''Lunch'' n
       \<and> ingredients (generate_recipe remdups
           [''cuisine'' \<mapsto> ''Italian'', ''meal_type'' \<mapsto> ''Lunch'', ''difficulty'' \<mapsto> ''Easy'']
           [] []) = Some ings
       \<and> (''tomatoes'' \<in> set ings \<or> ''basil'' \<in> set ings \<or> ''parmesan cheese'' \<in> set ings))
   \<and> [''difficulty'' \<mapsto> ''Hard''] ''difficulty'' = Some ''Hard''
   \<and> prep_time (generate_recipe remdups [''difficulty'' \<mapsto> ''Hard''] [''vegan''] [''tofu''])
       = Some 20
   \<and> cook_time (generate_recipe remdups [''difficulty'' \<mapsto> ''Hard''] [''vegan''] [''tofu''])
       = Some 35"
proof -
  have h: "\<forall>xs :: string list. set (remdups xs) = set xs"
    by simp
  have d: "[''difficulty'' \<mapsto> ''Hard''] ''difficulty'' = Some ''Hard''"
    by simp
  show ?thesis
    using h d
      generate_recipe_italian_lunch_easy
        [of remdups "[''difficulty'' \<mapsto> ''Hard'']" "[''vegan'']" "[''tofu'']"]
    by blast
qed

lemma lower_recognized: "x \<in> fst ` set recognized \<Longrightarrow> lower x = x"
  unfolding fst_recognized
  by (elim insertE emptyE) (simp_all add: lower_def lower_char_def)

lemma generate_recipe_flags:
  "(label, flag) \<in> set recognized \<Longrightarrow> label \<in> set R \<Longrightarrow>
     get (get (dietary_info (generate_recipe so p R a)) Map.empty flag) False"
  unfolding recognized_def generate_recipe_dietary_info
  by (simp add: get_def) (elim disjE conjE; simp)

text \<open>
  C9. When every label of the restriction list is one of the seven recognised lower-case
  labels, the recipe generated for that list passes the dietary filter for the same list
  (the filter of app.py and the one of cli.py): the list is copied into the tags, and the
  flag of every requested label is true.
\<close>

theorem generate_recipe_matches_own_restrictions:
  "set R \<subseteq> fst ` set recognized \<longrightarrow>
     matches_dietary_restrictions (generate_recipe set_order p R a) R
   \<and> cli_matches_dietary_restrictions (generate_recipe set_order p R a) R
   \<and> tags (generate_recipe set_order p R a) = Some (R @ [''ai-generated''])
   \<and> (\<forall>(label, flag)\<in>set recognized. label \<in> set R \<longrightarrow>
        get (get (dietary_info (generate_recipe set_order p R a)) Map.empty flag) False)"
proof (intro impI conjI)
  assume R: "set R \<subseteq> fst ` set recognized"
  let ?r = "generate_recipe set_order p R a"
  have sat: "satisfied ?r label flag" if "\<rho> \<in> set R" "lower \<rho> = label" for \<rho> label flag
  proof -
    from that R have "label = \<rho>"
      using lower_recognized [of \<rho>] by auto
    with that show ?thesis
      by (simp add: satisfied_def generate_recipe_tags get_def)
  qed
  then show "matches_dietary_restrictions ?r R"
    unfolding matches_iff by blast
  from sat show "cli_matches_dietary_restrictions ?r R"
    unfolding cli_matches_iff by blast
  show "tags ?r = Some (R @ [''ai-generated''])"
    by (rule generate_recipe_tags)
  show "\<forall>(label, flag)\<in>set recognized. label \<in> set R \<longrightarrow>
        get (get (dietary_info ?r) Map.empty flag) False"
    using generate_recipe_flags by blast
qed

theorem generate_recipe_matches_own_restrictions_witness:
  "set [''vegan'', ''keto''] \<subseteq> fst ` set recognized
   \<and> matches_dietary_restrictions
       (generate_recipe remdups Map.empty [''vegan'', ''keto''] [''tofu'']) [''vegan'', ''keto'']
   \<and> get (get (dietary_info (generate_recipe remdups Map.empty [''vegan'', ''keto''] [''tofu'']))
            Map.empty ''keto'') False"
proof -
  have h: "set [''vegan'', ''keto''] \<subseteq> fst ` set recognized"
    by (simp add: fst_recognized)
  have k: "(''keto'', ''keto'') \<in> set recognized" "''keto'' \<in> set [''vegan'', ''keto'']"
    by (simp_all add: recognized_def)
  show ?thesis
    using h k
      generate_recipe_matches_own_restrictions
        [of "[''vegan'', ''keto'']" remdups Map.empty "[''tofu'']"]
    by blast
qed

text \<open>
  C10. Whatever the preferences, restrictions and owned ingredients, the generated recipe
  has the flag \<open>nut_free\<close> set to true, so it passes the dietary filter for any label that
  reads \<open>nut-free\<close> in lower case.
\<close>

theorem generate_recipe_always_nut_free:
  "(\<exists>D. dietary_info (generate_recipe set_order p R a) = Some D \<and> D ''nut_free'' = Some True)
   \<and> (\<forall>\<rho>. lower \<rho> = ''nut-free'' \<longrightarrow>
        matches_dietary_restrictions (generate_recipe set_order p R a) [\<rho>]
        \<and> cli_matches_dietary_restrictions (generate_recipe set_order p R a) [\<rho>])"
proof (intro conjI allI impI)
  show "\<exists>D. dietary_info (generate_recipe set_order p R a) = Some D \<and> D ''nut_free'' = Some True"
    by (simp add: generate_recipe_dietary_info)
next
  fix \<rho> assume l: "lower \<rho> = ''nut-free''"
  have "satisfied (generate_recipe set_order p R a) ''nut-free'' ''nut_free''"
    by (simp add: satisfied_def generate_recipe_dietary_info get_def)
  with l have *: "\<forall>\<rho>'\<in>set [\<rho>]. \<forall>(label, flag)\<in>set recognized.
      lower \<rho>' = label \<longrightarrow> satisfied (generate_recipe set_order p R a) label flag"
    by (simp add: recognized_def)
  then show "matches_dietary_restrictions (generate_recipe set_order p R a) [\<rho>]"
    unfolding matches_iff .
  from * show "cli_matches_dietary_restrictions (generate_recipe set_order p R a) [\<rho>]"
    unfolding cli_matches_iff .
qed

theorem generate_recipe_always_nut_free_witness:
  "lower ''Nut-Free'' = ''nut-free''
   \<and> matches_dietary_restrictions
       (generate_recipe remdups Map.empty [] [''peanuts'', ''almond butter'']) [''Nut-Free'']"
proof -
  have l: "lower ''Nut-Free'' = ''nut-free''"
    by (simp add: lower_def lower_char_def)
  show ?thesis
    using l generate_recipe_always_nut_free
        [of remdups Map.empty "[]" "[''peanuts'', ''almond butter'']"]
    by blast
qed

section \<open>Extracting JSON from a response\<close>

lemma search_object_span:
  assumes "CHR ''{'' \<notin> set pre" "CHR ''}'' \<notin> set post"
  shows "search_object (pre @ CHR ''{'' # mid @ CHR ''}'' # post) = Some (CHR ''{'' # mid @ [CHR ''}''])"
proof -
  have 1: "dropWhile (\<lambda>c. c \<noteq> CHR ''{'') (pre @ CHR ''{'' # mid @ CHR ''}'' # post)
      = CHR ''{'' # mid @ CHR ''}'' # post"
    using assms(1) by (subst dropWhile_append2) auto
  have 2: "dropWhile (\<lambda>c. c \<noteq> CHR ''}'') (rev post @ CHR ''}'' # rev mid) = CHR ''}'' # rev mid"
  proof -
    have "dropWhile (\<lambda>c. c \<noteq> CHR ''}'') (rev post @ CHR ''}'' # rev mid)
        = dropWhile (\<lambda>c. c \<noteq> CHR ''}'') (CHR ''}'' # rev mid)"
      by (rule dropWhile_append2) (use assms(2) in auto)
    then show ?thesis
      by simp
  qed
  show ?thesis
    unfolding search_object_def 1 by (simp add: 2)
qed

lemma search_object_Some:
  assumes "search_object text = Some sp"
  shows "\<exists>pre mid post. text = pre @ CHR ''{'' # mid @ CHR ''}'' # post
           \<and> CHR ''{'' \<notin> set pre \<and> CHR ''}'' \<notin> set post \<and> sp = CHR ''{'' # mid @ [CHR ''}'']"
proof -
  let ?pre = "takeWhile (\<lambda>c. c \<noteq> CHR ''{'') text"
  from assms obtain c rest where d: "dropWhile (\<lambda>c. c \<noteq> CHR ''{'') text = c # rest"
    and r: "CHR ''}'' \<in> set rest"
    by (auto simp: search_object_def split: list.splits if_splits)
  from d have c: "c = CHR ''{''"
    using hd_dropWhile [of "\<lambda>c. c \<noteq> CHR ''{''" "text"] by auto
  from r obtain mid post where rest: "rest = mid @ CHR ''}'' # post" and post: "CHR ''}'' \<notin> set post"
    by (meson split_list_last)
  have decomp: "text = ?pre @ CHR ''{'' # mid @ CHR ''}'' # post"
    using d c rest takeWhile_dropWhile_id [of "\<lambda>c. c \<noteq> CHR ''{''" "text"] by simp
  have pre: "CHR ''{'' \<notin> set ?pre"
    by (auto dest: set_takeWhileD)
  from search_object_span [OF pre post, of mid] assms decomp
  have "sp = CHR ''{'' # mid @ [CHR ''}'']" by simp
  with decomp pre post show ?thesis by blast
qed

lemma match_array_plain:
  "list_all plain b \<Longrightarrow>
     match_array inner (b @ rest) =
       (case match_array inner rest of None \<Rightarrow> None | Some m \<Rightarrow> Some (b @ m))"
  by (induction b) (auto simp: plain_def split: option.split)

lemma match_array_groups:
  assumes "\<forall>(n, t)\<in>set groups. list_all plain n \<and> list_all plain t"
  shows "match_array False (concat (map (\<lambda>(n, t). CHR ''['' # n @ CHR '']'' # t) groups) @ CHR '']'' # post)
       = Some (concat (map (\<lambda>(n, t). CHR ''['' # n @ CHR '']'' # t) groups) @ [CHR '']''])"
  using assms
proof (induction groups)
  case Nil
  then show ?case by simp
next
  case (Cons g groups)
  obtain n t where g: "g = (n, t)" by (cases g)
  with Cons.prems have n: "list_all plain n" and t: "list_all plain t" by auto
  from Cons have IH: "match_array False (concat (map (\<lambda>(n, t). CHR ''['' # n @ CHR '']'' # t) groups) @ CHR '']'' # post)
       = Some (concat (map (\<lambda>(n, t). CHR ''['' # n @ CHR '']'' # t) groups) @ [CHR '']''])"
    by simp
  show ?case
    by (simp add: g match_array_plain [OF n] match_array_plain [OF t] IH)
qed

lemma match_array_body:
  assumes "list_all plain b0" "\<forall>(n, t)\<in>set groups. list_all plain n \<and> list_all plain t"
  shows "match_array False (array_body b0 groups @ CHR '']'' # post)
       = Some (array_body b0 groups @ [CHR '']''])"
  unfolding array_body_def
  by (simp add: match_array_plain [OF assms(1)] match_array_groups [OF assms(2)])

lemma search_array_skip:
  "CHR ''['' \<notin> set pre \<Longrightarrow> search_array (pre @ rest) = search_array rest"
  by (induction pre) auto

lemma search_array_span:
  assumes "CHR ''['' \<notin> set pre" "list_all plain b0"
    "\<forall>(n, t)\<in>set groups. list_all plain n \<and> list_all plain t"
  shows "search_array (pre @ CHR ''['' # array_body b0 groups @ CHR '']'' # post)
       = Some (CHR ''['' # array_body b0 groups @ [CHR '']''])"
  by (simp add: search_array_skip [OF assms(1)] match_array_body [OF assms(2,3)])

text \<open>
  C6. The extractor takes the span from the first opening brace to the last closing brace
  and returns what \<open>json.loads\<close> makes of it. When there is no such span or it does not
  parse, it takes the first span that starts at an opening bracket and has the shape of an
  array with at most one level of nested arrays, and returns what \<open>json.loads\<close> makes of
  that; when neither attempt gives a value the result is \<open>None\<close>. On the three texts of
  the specification it returns \<open>None\<close>, the decoding of \<open>{"a":1}\<close> and the decoding of
  \<open>["x","y"]\<close>.
\<close>

theorem parse_json_from_response_extracts:
  "(CHR ''{'' \<notin> set pre \<and> CHR ''}'' \<notin> set post
      \<and> loads (CHR ''{'' # mid @ [CHR ''}'']) = Some v \<longrightarrow>
      parse_json_from_response loads (pre @ CHR ''{'' # mid @ CHR ''}'' # post) = Some v)
   \<and> (search_object response = Some sp \<longrightarrow>
        (\<exists>pre mid post. response = pre @ CHR ''{'' # mid @ CHR ''}'' # post
           \<and> CHR ''{'' \<notin> set pre \<and> CHR ''}'' \<notin> set post \<and> sp = CHR ''{'' # mid @ [CHR ''}'']))
   \<and> (response \<noteq> []
        \<and> (search_object response = None
            \<or> (\<exists>sp. search_object response = Some sp \<and> loads sp = None)) \<longrightarrow>
        parse_json_from_response loads response =
          (case search_array response of Some ap \<Rightarrow> loads ap | None \<Rightarrow> None))
   \<and> (CHR ''['' \<notin> set before \<and> list_all plain b0
        \<and> (\<forall>(n, t)\<in>set groups. list_all plain n \<and> list_all plain t) \<longrightarrow>
        search_array (before @ CHR ''['' # array_body b0 groups @ CHR '']'' # after)
          = Some (CHR ''['' # array_body b0 groups @ [CHR '']'']))
   \<and> parse_json_from_response loads [] = None
   \<and> parse_json_from_response loads ''no braces or brackets here'' = None
   \<and> parse_json_from_response loads ''prefix {\"a\":1} suffix'' = loads ''{\"a\":1}''
   \<and> parse_json_from_response loads ''[\"x\",\"y\"]'' = loads ''[\"x\",\"y\"]''"
proof (intro conjI impI)
  assume "CHR ''{'' \<notin> set pre \<and> CHR ''}'' \<notin> set post
      \<and> loads (CHR ''{'' # mid @ [CHR ''}'']) = Some v"
  then show "parse_json_from_response loads (pre @ CHR ''{'' # mid @ CHR ''}'' # post) = Some v"
    by (simp add: parse_json_from_response_def search_object_span)
next
  assume "search_object response = Some sp"
  then show "\<exists>pre mid post. response = pre @ CHR ''{'' # mid @ CHR ''}'' # post
           \<and> CHR ''{'' \<notin> set pre \<and> CHR ''}'' \<notin> set post \<and> sp = CHR ''{'' # mid @ [CHR ''}'']"
    by (rule search_object_Some)
next
  assume "response \<noteq> []
        \<and> (search_object response = None
            \<or> (\<exists>sp. search_object response = Some sp \<and> loads sp = None))"
  then show "parse_json_from_response loads response =
          (case search_array response of Some ap \<Rightarrow> loads ap | None \<Rightarrow> None)"
    by (auto simp: parse_json_from_response_def)
next
  assume "CHR ''['' \<notin> set before \<and> list_all plain b0
        \<and> (\<forall>(n, t)\<in>set groups. list_all plain n \<and> list_all plain t)"
  then show "search_array (before @ CHR ''['' # array_body b0 groups @ CHR '']'' # after)
          = Some (CHR ''['' # array_body b0 groups @ [CHR '']''])"
    using search_array_span by blast
next
  show "parse_json_from_response loads [] = None"
    by (simp add: parse_json_from_response_def)
  show "parse_json_from_response loads ''no braces or brackets here'' = None"
    by (simp add: parse_json_from_response_def search_object_def)
  show "parse_json_from_response loads ''prefix {\"a\":1} suffix'' = loads ''{\"a\":1}''"
    by (simp add: parse_json_from_response_def search_object_def split: option.split)
  show "parse_json_from_response loads ''[\"x\",\"y\"]'' = loads ''[\"x\",\"y\"]''"
    by (simp add: parse_json_from_response_def search_object_def split: option.split)
qed

theorem parse_json_from_response_extracts_witness:
  "parse_json_from_response sample_loads ''prefix {\"a\":1} suffix''
     = Some (JObject [(''a'', JNumber 1)])
   \<and> parse_json_from_response sample_loads ''Tips {draft}: [\"x\",\"y\"]''
     = Some (JArray [JString ''x'', JString ''y''])
   \<and> search_array ''see [1, [2, 3], 4] and [5]'' = Some ''[1, [2, 3], 4]''"
proof -
  have "CHR ''{'' \<notin> set ''prefix '' \<and> CHR ''}'' \<notin> set '' suffix''
      \<and> sample_loads (CHR ''{'' # ''\"a\":1'' @ [CHR ''}'']) = Some (JObject [(''a'', JNumber 1)])"
    by (simp add: sample_loads_def)
  then have "parse_json_from_response sample_loads
      (''prefix '' @ CHR ''{'' # ''\"a\":1'' @ CHR ''}'' # '' suffix'')
      = Some (JObject [(''a'', JNumber 1)])"
    using parse_json_from_response_extracts
      [where pre = "''prefix ''" and post = "'' suffix''" and mid = "''\"a\":1''"
         and loads = sample_loads and v = "JObject [(''a'', JNumber 1)]"]
    by blast
  then have 1: "parse_json_from_response sample_loads ''prefix {\"a\":1} suffix''
     = Some (JObject [(''a'', JNumber 1)])"
    by simp
  have "search_object ''Tips {draft}: [\"x\",\"y\"]'' = Some ''{draft}''"
    by (simp add: search_object_def)
  moreover have "sample_loads ''{draft}'' = None"
    by (simp add: sample_loads_def)
  ultimately have "parse_json_from_response sample_loads ''Tips {draft}: [\"x\",\"y\"]'' =
      (case search_array ''Tips {draft}: [\"x\",\"y\"]'' of
         Some ap \<Rightarrow> sample_loads ap | None \<Rightarrow> None)"
    using parse_json_from_response_extracts
      [where response = "''Tips {draft}: [\"x\",\"y\"]''" and loads = sample_loads]
    by blast
  then have 2: "parse_json_from_response sample_loads ''Tips {draft}: [\"x\",\"y\"]''
     = Some (JArray [JString ''x'', JString ''y''])"
    by (simp add: sample_loads_def)
  have "CHR ''['' \<notin> set ''see '' \<and> list_all plain ''1, ''
      \<and> (\<forall>(n, t)\<in>set [(''2, 3'', '', 4'')]. list_all plain n \<and> list_all plain t)"
    by (simp add: plain_def)
  then have "search_array (''see '' @ CHR ''['' # array_body ''1, '' [(''2, 3'', '', 4'')]
        @ CHR '']'' # '' and [5]'')
      = Some (CHR ''['' # array_body ''1, '' [(''2, 3'', '', 4'')] @ [CHR '']''])"
    using parse_json_from_response_extracts
      [where before = "''see ''" and ?b0.0 = "''1, ''" and groups = "[(''2, 3'', '', 4'')]"
         and after = "'' and [5]''"]
    by blast
  then have 3: "search_array ''see [1, [2, 3], 4] and [5]'' = Some ''[1, [2, 3], 4]''"
    by (simp add: array_body_def)
  from 1 2 3 show ?thesis by simp
qed

end
